theory Spec2Isabelle
  imports Complex_Main "HOL-Library.Sublist"
begin

section \<open>Text\<close>

text \<open>
  A Python \<open>str\<close> is a sequence of code points. The model keeps one \<^typ>\<open>char\<close> per code
  point and therefore covers text whose code points are below 256. On that range
  \<open>str.lower\<close> moves the capital letters A..Z and the capitals 192..222 (except the
  multiplication sign 215) up by 32, and \<open>str.isspace\<close> holds of the code points 9..13,
  28..32, 133 and 160. No theorem below depends on which characters these tables name.
\<close>

definition lower_char :: "char \<Rightarrow> char" where
  "lower_char c =
     (let n = (of_char c :: nat)
      in if (65 \<le> n \<and> n \<le> 90) \<or> (192 \<le> n \<and> n \<le> 222 \<and> n \<noteq> 215)
         then char_of (n + 32) else c)"

definition lower :: "string \<Rightarrow> string" where
  "lower s = map lower_char s"

definition isspace :: "char \<Rightarrow> bool" where
  "isspace c =
     (let n = (of_char c :: nat)
      in (9 \<le> n \<and> n \<le> 13) \<or> (28 \<le> n \<and> n \<le> 32) \<or> n = 133 \<or> n = 160)"

text \<open>\<open>s.strip()\<close>: the whitespace at both ends is dropped.\<close>

definition strip :: "string \<Rightarrow> string" where
  "strip s = rev (dropWhile isspace (rev (dropWhile isspace s)))"

section \<open>Decoded JSON\<close>

text \<open>
  What \<open>response.json()\<close> hands to the program: Python values built from \<open>None\<close>,
  booleans, integers, floats (finite ones, as the numbers they denote), strings, lists and
  dictionaries with string keys. A dictionary is the association list of its items.
\<close>

datatype pyval =
    PNone
  | PBool bool
  | PInt int
  | PFloat real
  | PStr string
  | PList "pyval list"
  | PDict "(string \<times> pyval) list"

datatype exn =
    KeyError | IndexError | ValueError | TypeError | AttributeError | EOFError | OSError

text \<open>Truth value testing, as \<open>if x\<close> and \<open>x and y\<close> do it.\<close>

fun truthy :: "pyval \<Rightarrow> bool" where
  "truthy PNone = False"
| "truthy (PBool b) = b"
| "truthy (PInt i) = (i \<noteq> 0)"
| "truthy (PFloat x) = (x \<noteq> 0)"
| "truthy (PStr s) = (s \<noteq> [])"
| "truthy (PList xs) = (xs \<noteq> [])"
| "truthy (PDict kvs) = (kvs \<noteq> [])"

fun isinstance_list :: "pyval \<Rightarrow> bool" where
  "isinstance_list (PList xs) = True"
| "isinstance_list v = False"

text \<open>
  \<open>k in x\<close> for a string \<open>k\<close>: key membership in a dictionary, substring test in a
  string, element test in a list, and \<open>TypeError\<close> for a value that is not a container.
\<close>

fun py_in :: "string \<Rightarrow> pyval \<Rightarrow> exn + bool" where
  "py_in k (PDict kvs) = Inr (map_of kvs k \<noteq> None)"
| "py_in k (PStr s) = Inr (sublist k s)"
| "py_in k (PList xs) = Inr (PStr k \<in> set xs)"
| "py_in k v = Inl TypeError"

text \<open>
  \<open>x[k]\<close> for a string \<open>k\<close>: the value stored in a dictionary, \<open>KeyError\<close> when the key
  is absent, \<open>TypeError\<close> for every other value (strings and lists take integer indices,
  the rest is not subscriptable).
\<close>

fun py_getitem :: "pyval \<Rightarrow> string \<Rightarrow> exn + pyval" where
  "py_getitem (PDict kvs) k = (case map_of kvs k of None \<Rightarrow> Inl KeyError | Some v \<Rightarrow> Inr v)"
| "py_getitem v k = Inl TypeError"

text \<open>\<open>x.lower()\<close>: only a string has the method.\<close>

fun py_lower :: "pyval \<Rightarrow> exn + string" where
  "py_lower (PStr s) = Inr (lower s)"
| "py_lower v = Inl AttributeError"

section \<open>The world the program runs in\<close>

text \<open>
  A piece of formatted text keeps the interpolated value apart from the literal text
  around it; it stands for a text, so the value in it is taken to have one. Where a
  run first turns a value into text (the line \<open>main\<close> prints about the team identifier,
  the rows of the CSV file) the model says what happens when it has none.
\<close>

datatype piece = Lit string | Val pyval

type_synonym url = "piece list"

text \<open>
  \<open>requests.get(url)\<close>, \<open>raise_for_status()\<close> and \<open>json()\<close> together either raise a
  \<open>RequestException\<close> (no connection, an error status, a body that is not JSON) or
  give the decoded body.
\<close>

datatype http_result = RequestFailed | Body pyval

datatype msg =
    Banner
  | Rule
  | Prompt
  | EmptyName
  | Processing string
  | Stage1
  | CannotGetTeamId
  | GotTeamId pyval
  | Stage2
  | BuiltUrl url
  | Stage3
  | NoMatchIds
  | GotMatchIds nat
  | Stage4
  | Finished
  | TeamNotFound string
  | TeamNetworkError
  | TeamParseError exn
  | NoMatchData
  | MatchNetworkError
  | MatchParseError exn
  | NothingToExport
  | Exported nat string
  | ExportError exn

text \<open>
  The surroundings of one run:
  \<^item> the line typed at the prompt (\<open>None\<close> when standard input is at its end);
  \<^item> the remote service;
  \<^item> the paths that cannot be opened for writing, and the exception \<open>open\<close> raises for
    such a path (\<open>OSError\<close> for a missing or read-only directory, \<open>ValueError\<close> for a
    name with a null character);
  \<^item> the interpreter's limit on the decimal digits of an integer turned into text
    (4300 unless configured otherwise, 0 for no limit);
  \<^item> for a column that is not made of integers only, the lines pandas writes and the
    exception that stops the writing, if one does.
\<close>

record env =
  stdin_line :: "string option"
  http :: "url \<Rightarrow> http_result"
  fs_refuses :: "string \<Rightarrow> bool"
  refusal :: "string \<Rightarrow> exn"
  max_str_digits :: nat
  other_column :: "pyval list \<Rightarrow> string list \<times> exn option"

text \<open>
  The observable state: the lines printed, the requests sent, both in order, and the
  files of the working directory.
\<close>

record world =
  out :: "msg list"
  requests :: "url list"
  files :: "string \<rightharpoonup> string"

definition say :: "msg \<Rightarrow> world \<Rightarrow> world" where
  "say m w = w\<lparr>out := out w @ [m]\<rparr>"

definition requests_get :: "env \<Rightarrow> url \<Rightarrow> world \<Rightarrow> http_result \<times> world" where
  "requests_get e u w = (http e u, w\<lparr>requests := requests w @ [u]\<rparr>)"

section \<open>The text of a value\<close>

text \<open>
  \<open>str(i)\<close> for an integer: decimal digits, a minus sign in front when negative, and
  \<open>ValueError\<close> when the digits are more than the interpreter's limit.
\<close>

definition digit_char :: "nat \<Rightarrow> char" where
  "digit_char d = char_of (48 + d)"

fun nat_digits :: "nat \<Rightarrow> string" where
  "nat_digits n =
     (if n < 10 then [digit_char n] else nat_digits (n div 10) @ [digit_char (n mod 10)])"

declare nat_digits.simps [simp del]

definition decimal :: "int \<Rightarrow> string" where
  "decimal i = (if i < 0 then CHR ''-'' # nat_digits (nat (- i)) else nat_digits (nat i))"

definition digits_ok :: "env \<Rightarrow> int \<Rightarrow> bool" where
  "digits_ok e i =
     (max_str_digits e = 0 \<or> length (nat_digits (nat \<bar>i\<bar>)) \<le> max_str_digits e)"

definition str_int :: "env \<Rightarrow> int \<Rightarrow> exn + string" where
  "str_int e i = (if digits_ok e i then Inr (decimal i) else Inl ValueError)"

text \<open>
  Whether a value can be interpolated into an f-string: an integer as above, a list or a
  dictionary when every value in it can, anything else always.
\<close>

fun formattable :: "env \<Rightarrow> pyval \<Rightarrow> bool" where
  "formattable e (PInt i) = digits_ok e i"
| "formattable e (PList xs) = (\<forall>x \<in> set xs. formattable e x)"
| "formattable e (PDict kvs) = (\<forall>kv \<in> set kvs. formattable e (snd kv))"
| "formattable e v = True"

section \<open>get_team_id\<close>

definition teams_url :: url where
  "teams_url = [Lit ''https://api.opendota.com/api/teams'']"

text \<open>
  The \<open>for team in data\<close> loop. \<open>Inr (Some v)\<close> is \<open>return v\<close> from inside the loop,
  \<open>Inr None\<close> is the loop running to its end, \<open>Inl e\<close> is the exception \<open>e\<close> raised by
  the condition or by \<open>team['team_id']\<close>.
\<close>

fun team_loop :: "string \<Rightarrow> pyval list \<Rightarrow> exn + pyval option" where
  "team_loop team_name [] = Inr None"
| "team_loop team_name (team # rest) =
     (case py_in ''name'' team of
        Inl e \<Rightarrow> Inl e
      | Inr False \<Rightarrow> team_loop team_name rest
      | Inr True \<Rightarrow>
          (case py_getitem team ''name'' of
             Inl e \<Rightarrow> Inl e
           | Inr nm \<Rightarrow>
               (case py_lower nm of
                  Inl e \<Rightarrow> Inl e
                | Inr l \<Rightarrow>
                    if sublist (lower team_name) l
                    then (case py_getitem team ''team_id'' of
                            Inl e \<Rightarrow> Inl e
                          | Inr v \<Rightarrow> Inr (Some v))
                    else team_loop team_name rest)))"

text \<open>The second \<open>except\<close> clause: \<open>(KeyError, IndexError, ValueError)\<close>.\<close>

fun parse_error :: "exn \<Rightarrow> bool" where
  "parse_error KeyError = True"
| "parse_error IndexError = True"
| "parse_error ValueError = True"
| "parse_error e = False"

text \<open>
  The result is the value returned (\<open>PNone\<close> for \<open>return None\<close>) or the exception that
  leaves the function, together with the world after the call.
\<close>

definition get_team_id :: "env \<Rightarrow> string \<Rightarrow> world \<Rightarrow> (exn + pyval) \<times> world" where
  "get_team_id e team_name w =
     (case requests_get e teams_url w of
        (RequestFailed, w1) \<Rightarrow> (Inr PNone, say TeamNetworkError w1)
      | (Body data, w1) \<Rightarrow>
          if truthy data \<and> isinstance_list data
          then (case data of
                  PList teams \<Rightarrow>
                    (case team_loop team_name teams of
                       Inr (Some v) \<Rightarrow> (Inr v, w1)
                     | Inr None \<Rightarrow> (Inr PNone, say (TeamNotFound team_name) w1)
                     | Inl x \<Rightarrow>
                         if parse_error x then (Inr PNone, say (TeamParseError x) w1)
                         else (Inl x, w1))
                | other \<Rightarrow> (Inr PNone, say (TeamNotFound team_name) w1))
          else (Inr PNone, say (TeamNotFound team_name) w1))"

section \<open>build_matches_url\<close>

definition build_matches_url :: "pyval \<Rightarrow> url" where
  "build_matches_url team_id =
     [Lit ''https://www.opendota.com/teams/'', Val team_id, Lit ''/matches'']"

section \<open>crawl_match_ids\<close>

definition team_matches_url :: "pyval \<Rightarrow> url" where
  "team_matches_url team_id =
     [Lit ''https://api.opendota.com/api/teams/'', Val team_id, Lit ''/matches'']"

text \<open>
  The comprehension \<open>[match['match_id'] for match in data if 'match_id' in match]\<close>,
  element by element; an exception raised at one element ends it.
\<close>

fun match_id_list :: "pyval list \<Rightarrow> exn + pyval list" where
  "match_id_list [] = Inr []"
| "match_id_list (m # rest) =
     (case py_in ''match_id'' m of
        Inl e \<Rightarrow> Inl e
      | Inr False \<Rightarrow> match_id_list rest
      | Inr True \<Rightarrow>
          (case py_getitem m ''match_id'' of
             Inl e \<Rightarrow> Inl e
           | Inr v \<Rightarrow>
               (case match_id_list rest of
                  Inl e \<Rightarrow> Inl e
                | Inr vs \<Rightarrow> Inr (v # vs))))"

definition crawl_match_ids :: "env \<Rightarrow> pyval \<Rightarrow> world \<Rightarrow> (exn + pyval list) \<times> world" where
  "crawl_match_ids e team_id w =
     (case requests_get e (team_matches_url team_id) w of
        (RequestFailed, w1) \<Rightarrow> (Inr [], say MatchNetworkError w1)
      | (Body data, w1) \<Rightarrow>
          if truthy data \<and> isinstance_list data
          then (case data of
                  PList ms \<Rightarrow>
                    (case match_id_list ms of
                       Inr match_ids \<Rightarrow> (Inr match_ids, w1)
                     | Inl x \<Rightarrow>
                         if parse_error x then (Inr [], say (MatchParseError x) w1)
                         else (Inl x, w1))
                | other \<Rightarrow> (Inr [], say NoMatchData w1))
          else (Inr [], say NoMatchData w1))"

section \<open>export_to_csv\<close>

text \<open>The column as integers, when every value of it is one.\<close>

fun int_column :: "pyval list \<Rightarrow> int list option" where
  "int_column [] = Some []"
| "int_column (PInt i # vs) = map_option ((#) i) (int_column vs)"
| "int_column (v # vs) = None"

text \<open>
  The rows are written one after the other; a value that has no text stops the writing
  with its exception, after the rows before it.
\<close>

fun write_rows :: "env \<Rightarrow> int list \<Rightarrow> string list \<times> exn option" where
  "write_rows e [] = ([], None)"
| "write_rows e (n # ns) =
     (case str_int e n of
        Inl x \<Rightarrow> ([], Some x)
      | Inr l \<Rightarrow> (case write_rows e ns of (ls, r) \<Rightarrow> (l # ls, r)))"

definition column_lines :: "env \<Rightarrow> pyval list \<Rightarrow> string list \<times> exn option" where
  "column_lines e vs =
     (case int_column vs of Some ns \<Rightarrow> write_rows e ns | None \<Rightarrow> other_column e vs)"

text \<open>
  \<open>pd.DataFrame({'match_id': match_ids}).to_csv(filename, index=False, encoding='utf-8')\<close>.
  When the path cannot be opened, the exception of \<open>open\<close> is raised and the files stay
  as they were. Otherwise the file of that name is replaced by the header line and one
  line per value, each ended by a line feed (the line end of a POSIX system), with no
  index column; when a value stops the writing, the file keeps what was written before
  it and the exception is raised. A device that fails in the middle of the writing is
  not part of the model.
\<close>

definition csv_text :: "env \<Rightarrow> pyval list \<Rightarrow> string" where
  "csv_text e vs =
     concat (map (\<lambda>l. l @ [CHR 0x0A]) (''match_id'' # fst (column_lines e vs)))"

definition to_csv :: "env \<Rightarrow> pyval list \<Rightarrow> string \<Rightarrow> world \<Rightarrow> exn option \<times> world" where
  "to_csv e vs filename w =
     (if fs_refuses e filename then (Some (refusal e filename), w)
      else (snd (column_lines e vs), w\<lparr>files := (files w)(filename \<mapsto> csv_text e vs)\<rparr>))"

definition export_to_csv :: "env \<Rightarrow> pyval list \<Rightarrow> string \<Rightarrow> world \<Rightarrow> world" where
  "export_to_csv e match_ids team_name w =
     (if match_ids = [] then say NothingToExport w
      else
        (let filename = team_name @ ''_match_ids.csv''
         in case to_csv e match_ids filename w of
              (None, w1) \<Rightarrow> say (Exported (length match_ids) filename) w1
            | (Some x, w1) \<Rightarrow> say (ExportError x) w1))"

section \<open>main\<close>

text \<open>
  The line that reports the team identifier interpolates it; an identifier that has no
  text makes this \<open>print\<close> raise \<open>ValueError\<close>, which nothing catches.
\<close>

definition main :: "env \<Rightarrow> world \<Rightarrow> (exn + unit) \<times> world" where
  "main e w0 =
     (let w1 = say Prompt (say Rule (say Banner w0))
      in case stdin_line e of
           None \<Rightarrow> (Inl EOFError, w1)
         | Some line \<Rightarrow>
             (let team_name = strip line
              in if team_name = [] then (Inr (), say EmptyName w1)
                 else
                   (case get_team_id e team_name (say Stage1 (say (Processing team_name) w1)) of
                      (Inl x, w2) \<Rightarrow> (Inl x, w2)
                    | (Inr team_id, w2) \<Rightarrow>
                        if \<not> truthy team_id then (Inr (), say CannotGetTeamId w2)
                        else if \<not> formattable e team_id then (Inl ValueError, w2)
                        else
                          (let w3 = say Stage2 (say (GotTeamId team_id) w2);
                               matches_url = build_matches_url team_id;
                               w4 = say Stage3 (say (BuiltUrl matches_url) w3)
                           in case crawl_match_ids e team_id w4 of
                                (Inl x, w5) \<Rightarrow> (Inl x, w5)
                              | (Inr match_ids, w5) \<Rightarrow>
                                  if match_ids = [] then (Inr (), say NoMatchIds w5)
                                  else
                                    (let w6 = say Stage4 (say (GotMatchIds (length match_ids)) w5);
                                         w7 = export_to_csv e match_ids team_name w6
                                     in (Inr (), say Finished w7))))))"

section \<open>Notions used to state the properties\<close>

text \<open>
  A team record as the loop can scan it: a dictionary whose \<open>name\<close>, when it has one,
  is a string.
\<close>

fun team_record :: "pyval \<Rightarrow> bool" where
  "team_record (PDict kvs) =
     (case map_of kvs ''name'' of None \<Rightarrow> True | Some (PStr n) \<Rightarrow> True | Some v \<Rightarrow> False)"
| "team_record v = False"

text \<open>The lower-cased team name is a substring of the record's lower-cased \<open>name\<close>.\<close>

fun name_matches :: "string \<Rightarrow> pyval \<Rightarrow> bool" where
  "name_matches team_name (PDict kvs) =
     (case map_of kvs ''name'' of
        Some (PStr n) \<Rightarrow> sublist (lower team_name) (lower n)
      | other \<Rightarrow> False)"
| "name_matches team_name v = False"

fun has_name :: "pyval \<Rightarrow> bool" where
  "has_name (PDict kvs) = (map_of kvs ''name'' \<noteq> None)"
| "has_name v = False"

fun is_dict :: "pyval \<Rightarrow> bool" where
  "is_dict (PDict kvs) = True"
| "is_dict v = False"

text \<open>The \<open>match_id\<close> field of a match record, when it has one.\<close>

fun match_id_of :: "pyval \<Rightarrow> pyval option" where
  "match_id_of (PDict kvs) = map_of kvs ''match_id''"
| "match_id_of v = None"

subsection \<open>Reading the CSV file back\<close>







subsection \<open>What a run obtains\<close>



subsection \<open>Sample surroundings\<close>

text \<open>
  A world in which nothing has happened yet, a remote service that answers the team
  listing with one body and every other request with another, and surroundings built
  from a typed line, the two bodies and whether the working directory is read-only
  (the interpreter's digit limit being the usual 4300).
\<close>

definition fresh :: world where
  "fresh = \<lparr>out = [], requests = [], files = Map.empty\<rparr>"

definition service :: "pyval \<Rightarrow> pyval \<Rightarrow> url \<Rightarrow> http_result" where
  "service teams matches u = (if u = teams_url then Body teams else Body matches)"

definition surroundings :: "string \<Rightarrow> pyval \<Rightarrow> pyval \<Rightarrow> bool \<Rightarrow> env" where
  "surroundings line teams matches read_only =
     \<lparr>stdin_line = Some line, http = service teams matches,
      fs_refuses = (\<lambda>p. read_only), refusal = (\<lambda>p. OSError), max_str_digits = 4300,
      other_column = (\<lambda>vs. (map (\<lambda>v. []) vs, None))\<rparr>"


definition og_items :: "(string \<times> pyval) list" where
  "og_items = [(''name'', PStr ''OG''), (''team_id'', PInt 2)]"

definition ldl_items :: "(string \<times> pyval) list" where
  "ldl_items = [(''name'', PStr ''OG.LDL''), (''team_id'', PInt 3)]"

definition og_teams :: "pyval list" where
  "og_teams = [PDict og_items, PDict ldl_items]"

definition some_matches :: "pyval list" where
  "some_matches = [PDict [(''match_id'', PInt 100)], PDict [(''foo'', PInt 1)],
                   PDict [(''match_id'', PInt 200)]]"

section \<open>Auxiliary facts\<close>

lemma lower_og: "lower ''og'' = ''og''"
  by code_simp

lemma lower_OG: "lower ''OG'' = ''og''"
  by code_simp

lemma files_say: "files (say m w) = files w"
  by (simp add: say_def)

subsection \<open>The team loop\<close>

lemma team_loop_step:
  "team_record t \<Longrightarrow>
   team_loop team_name (t # rest) =
     (if name_matches team_name t
      then (case py_getitem t ''team_id'' of Inl e \<Rightarrow> Inl e | Inr v \<Rightarrow> Inr (Some v))
      else team_loop team_name rest)"
  by (cases t) (auto split: option.splits pyval.splits)

lemma team_loop_find:
  "list_all team_record teams \<Longrightarrow>
   team_loop team_name teams =
     (case find (name_matches team_name) teams of
        None \<Rightarrow> Inr None
      | Some t \<Rightarrow> (case py_getitem t ''team_id'' of Inl e \<Rightarrow> Inl e | Inr v \<Rightarrow> Inr (Some v)))"
proof (induction teams)
  case Nil
  show ?case by simp
next
  case (Cons t rest)
  then have "team_record t" and "list_all team_record rest" by simp_all
  then show ?case using Cons.IH by (simp only: team_loop_step find.simps split: if_splits) simp
qed

lemma team_loop_skip:
  "map_of kvs ''name'' = None \<Longrightarrow> team_loop team_name (PDict kvs # rest) = team_loop team_name rest"
  by simp

lemma get_team_id_list:
  "http e teams_url = Body (PList teams) \<Longrightarrow>
   get_team_id e team_name w =
     (let w1 = w\<lparr>requests := requests w @ [teams_url]\<rparr>
      in if teams = [] then (Inr PNone, say (TeamNotFound team_name) w1)
         else (case team_loop team_name teams of
                 Inr (Some v) \<Rightarrow> (Inr v, w1)
               | Inr None \<Rightarrow> (Inr PNone, say (TeamNotFound team_name) w1)
               | Inl x \<Rightarrow>
                   if parse_error x then (Inr PNone, say (TeamParseError x) w1)
                   else (Inl x, w1)))"
  by (simp add: get_team_id_def requests_get_def Let_def)

lemma name_matches_empty: "team_record t \<Longrightarrow> name_matches [] t = has_name t"
  by (cases t) (auto simp: lower_def split: option.splits pyval.splits)

lemma find_has_name:
  "list_all team_record teams \<Longrightarrow> find (name_matches []) teams = find has_name teams"
  by (induction teams) (simp_all add: name_matches_empty)

subsection \<open>The comprehension over match records\<close>

lemma match_id_list_dicts:
  "list_all is_dict ms \<Longrightarrow> match_id_list ms = Inr (List.map_filter match_id_of ms)"
proof (induction ms)
  case Nil
  show ?case by (simp add: List.map_filter_simps)
next
  case (Cons m rest)
  then obtain kvs where m: "m = PDict kvs" by (cases m) auto
  from Cons have "match_id_list rest = Inr (List.map_filter match_id_of rest)" by simp
  then show ?case by (cases "map_of kvs ''match_id''") (simp_all add: m)
qed

subsection \<open>Whitespace\<close>

lemma strip_whitespace:
  assumes "list_all isspace s"
  shows "strip s = []"
proof -
  have d: "dropWhile isspace s = []"
    using assms by (induction s) simp_all
  show ?thesis unfolding strip_def d by simp
qed

subsection \<open>Skipping a record without a name\<close>



subsection \<open>Decimal text and lines\<close>






















subsection \<open>Files and messages\<close>

lemma export_to_csv_files:
  "files (export_to_csv e match_ids team_name w) =
     (if match_ids \<noteq> [] \<and> \<not> fs_refuses e (team_name @ ''_match_ids.csv'')
      then (files w)(team_name @ ''_match_ids.csv'' \<mapsto> csv_text e match_ids)
      else files w)"
  by (simp add: export_to_csv_def to_csv_def files_say Let_def split: option.splits)









subsection \<open>The sample run\<close>



section \<open>The properties\<close>

text \<open>
  C1. For a team list whose records can be scanned and a team name whose lower-cased form
  is a substring of some record's lower-cased \<open>name\<close>, \<open>get_team_id\<close> returns the
  \<open>team_id\<close> of the first such record in list order: one request is sent, nothing is
  printed, and no later record is looked at. The name need not even be non-empty.
\<close>

theorem get_team_id_first_match:
  assumes "http e teams_url = Body (PList teams)"
    and "list_all team_record teams"
    and "find (name_matches team_name) teams = Some (PDict kvs)"
    and "map_of kvs ''team_id'' = Some v"
  shows "get_team_id e team_name w = (Inr v, w\<lparr>requests := requests w @ [teams_url]\<rparr>)"
proof -
  have "team_loop team_name teams = Inr (Some v)"
    using assms(2-4) by (simp add: team_loop_find)
  moreover have "teams \<noteq> []" using assms(3) by auto
  ultimately show ?thesis using assms(1) by (simp add: get_team_id_list)
qed

theorem get_team_id_first_match_witness:
  "http (surroundings ''og'' (PList og_teams) (PList some_matches) False) teams_url
       = Body (PList og_teams)
   \<and> list_all team_record og_teams
   \<and> find (name_matches ''og'') og_teams = Some (PDict og_items)
   \<and> map_of og_items ''team_id'' = Some (PInt 2)
   \<and> get_team_id (surroundings ''og'' (PList og_teams) (PList some_matches) False) ''og'' fresh
       = (Inr (PInt 2), fresh\<lparr>requests := requests fresh @ [teams_url]\<rparr>)"
proof -
  have h1: "http (surroundings ''og'' (PList og_teams) (PList some_matches) False) teams_url
              = Body (PList og_teams)"
    by (simp add: surroundings_def service_def)
  have h2: "list_all team_record og_teams"
    by (simp add: og_teams_def og_items_def ldl_items_def)
  have h3: "find (name_matches ''og'') og_teams = Some (PDict og_items)"
    by (simp add: og_teams_def og_items_def lower_og lower_OG)
  have h4: "map_of og_items ''team_id'' = Some (PInt 2)"
    by (simp add: og_items_def)
  show ?thesis
    using h1 h2 h3 h4 get_team_id_first_match [OF h1 h2 h3 h4, of fresh] by simp
qed

text \<open>
  C2. For a list of match records, \<open>crawl_match_ids\<close> returns exactly the \<open>match_id\<close>
  values of the records that have the field, in the order of the list. A record without
  the field is left out and nothing is printed about it; only the empty list makes the
  function print that no match data came back.
\<close>

theorem crawl_match_ids_exact:
  assumes "http e (team_matches_url team_id) = Body (PList ms)"
    and "list_all is_dict ms"
  shows "crawl_match_ids e team_id w =
           (Inr (List.map_filter match_id_of ms),
            (if ms = [] then say NoMatchData else id)
              (w\<lparr>requests := requests w @ [team_matches_url team_id]\<rparr>))"
proof (cases "ms = []")
  case True
  then show ?thesis using assms(1)
    by (simp add: crawl_match_ids_def requests_get_def List.map_filter_simps)
next
  case False
  then show ?thesis using assms
    by (simp add: crawl_match_ids_def requests_get_def match_id_list_dicts)
qed

theorem crawl_match_ids_exact_witness:
  "http (surroundings ''og'' (PList og_teams) (PList some_matches) False) (team_matches_url (PInt 2))
       = Body (PList some_matches)
   \<and> list_all is_dict some_matches
   \<and> crawl_match_ids (surroundings ''og'' (PList og_teams) (PList some_matches) False)
            (PInt 2) fresh
       = (Inr [PInt 100, PInt 200], fresh\<lparr>requests := requests fresh @ [team_matches_url (PInt 2)]\<rparr>)"
proof -
  have h1: "http (surroundings ''og'' (PList og_teams) (PList some_matches) False)
              (team_matches_url (PInt 2)) = Body (PList some_matches)"
    by (simp add: surroundings_def service_def team_matches_url_def teams_url_def)
  have h2: "list_all is_dict some_matches"
    by (simp add: some_matches_def)
  have "List.map_filter match_id_of some_matches = [PInt 100, PInt 200]"
    and "some_matches \<noteq> []"
    by (simp_all add: some_matches_def List.map_filter_simps)
  then show ?thesis
    using h1 h2 crawl_match_ids_exact [OF h1 h2, of fresh] by simp
qed




text \<open>
  C5. For any team name and non-empty match ID list, a second \<open>export_to_csv\<close> with the
  same arguments leaves the files exactly as the first left them; when the write is
  accepted, the file then holds the text of one export, whatever it held before.
\<close>

theorem export_to_csv_twice:
  assumes "match_ids \<noteq> []"
  shows "files (export_to_csv e match_ids team_name (export_to_csv e match_ids team_name w)) =
           files (export_to_csv e match_ids team_name w)
         \<and> (\<not> fs_refuses e (team_name @ ''_match_ids.csv'') \<longrightarrow>
              files (export_to_csv e match_ids team_name (export_to_csv e match_ids team_name w))
                (team_name @ ''_match_ids.csv'') = Some (csv_text e match_ids))"
  using assms by (simp add: export_to_csv_files)

theorem export_to_csv_twice_witness:
  "[PInt 100] \<noteq> []
   \<and> \<not> fs_refuses (surroundings ''og'' (PList og_teams) (PList some_matches) False)
          (''og'' @ ''_match_ids.csv'')
   \<and> files (export_to_csv (surroundings ''og'' (PList og_teams) (PList some_matches) False)
               [PInt 100] ''og''
               (export_to_csv (surroundings ''og'' (PList og_teams) (PList some_matches) False)
                  [PInt 100] ''og'' fresh))
     = files (export_to_csv (surroundings ''og'' (PList og_teams) (PList some_matches) False)
                [PInt 100] ''og'' fresh)
   \<and> files (export_to_csv (surroundings ''og'' (PList og_teams) (PList some_matches) False)
               [PInt 100] ''og''
               (export_to_csv (surroundings ''og'' (PList og_teams) (PList some_matches) False)
                  [PInt 100] ''og'' fresh)) (''og'' @ ''_match_ids.csv'')
     = Some (csv_text (surroundings ''og'' (PList og_teams) (PList some_matches) False) [PInt 100])"
proof -
  have h1: "[PInt 100] \<noteq> []" by simp
  have h2: "\<not> fs_refuses (surroundings ''og'' (PList og_teams) (PList some_matches) False)
          (''og'' @ ''_match_ids.csv'')"
    by (simp add: surroundings_def)
  show ?thesis
    using h1 h2
      export_to_csv_twice [OF h1,
        of "surroundings ''og'' (PList og_teams) (PList some_matches) False" "''og''" fresh]
    by blast
qed

text \<open>
  C6. When the line typed at the prompt is empty or made of whitespace only, \<open>main\<close>
  prints the banner, the rule, the prompt and the message that the team name must not be
  empty, and returns: no request is sent, no file is touched, no later stage runs.
\<close>

theorem main_blank_input:
  assumes "stdin_line e = Some line" and "list_all isspace line"
  shows "main e w = (Inr (), w\<lparr>out := out w @ [Banner, Rule, Prompt, EmptyName]\<rparr>)"
  using assms by (simp add: main_def strip_whitespace say_def)

theorem main_blank_input_witness:
  "stdin_line (surroundings ''   '' (PList og_teams) (PList some_matches) False) = Some ''   ''
   \<and> list_all isspace ''   ''
   \<and> requests (snd (main (surroundings ''   '' (PList og_teams) (PList some_matches) False) fresh)) = []
   \<and> out (snd (main (surroundings ''   '' (PList og_teams) (PList some_matches) False) fresh))
       = [Banner, Rule, Prompt, EmptyName]"
proof -
  have h1: "stdin_line (surroundings ''   '' (PList og_teams) (PList some_matches) False) = Some ''   ''"
    by (simp add: surroundings_def)
  have h2: "list_all isspace ''   ''"
    by (simp add: isspace_def)
  show ?thesis
    using h1 h2 main_blank_input [OF h1 h2, of fresh] by (simp add: fresh_def)
qed




text \<open>
  C7. Not every response is turned into the sentinel value. A team list holding the number
  1 makes \<open>get_team_id\<close> raise \<open>TypeError\<close>, a team record whose \<open>name\<close> is \<open>null\<close> makes
  it raise \<open>AttributeError\<close>, and a match list holding the number 1 makes
  \<open>crawl_match_ids\<close> raise \<open>TypeError\<close>; none of the three is among the exceptions the
  functions catch, so each leaves the function.
\<close>

theorem shape_errors_propagate:
  "fst (get_team_id (surroundings ''og'' (PList [PInt 1]) (PList some_matches) False) ''og'' fresh)
     = Inl TypeError
   \<and> fst (get_team_id (surroundings ''og'' (PList [PDict [(''name'', PNone), (''team_id'', PInt 1)]])
                        (PList some_matches) False) ''og'' fresh)
     = Inl AttributeError
   \<and> fst (crawl_match_ids (surroundings ''og'' (PList og_teams) (PList [PInt 1]) False)
            (PInt 2) fresh)
     = Inl TypeError"
  by (simp add: get_team_id_def crawl_match_ids_def requests_get_def surroundings_def service_def
      team_matches_url_def teams_url_def)

text \<open>
  C8. A team whose identifier is the integer 0 is resolved by \<open>get_team_id\<close>, and \<open>main\<close>
  still halts after the ResolveTeam stage: it prints that no team identifier could be
  obtained and never sends the request for the matches.
\<close>

theorem main_halts_on_team_id_zero:
  "fst (get_team_id (surroundings ''og'' (PList [PDict [(''name'', PStr ''OG''), (''team_id'', PInt 0)]])
                      (PList some_matches) False) ''og'' fresh) = Inr (PInt 0)
   \<and> out (snd (main (surroundings ''og'' (PList [PDict [(''name'', PStr ''OG''), (''team_id'', PInt 0)]])
                      (PList some_matches) False) fresh))
      = [Banner, Rule, Prompt, Processing ''og'', Stage1, CannotGetTeamId]
   \<and> requests (snd (main (surroundings ''og'' (PList [PDict [(''name'', PStr ''OG''), (''team_id'', PInt 0)]])
                      (PList some_matches) False) fresh))
      = [teams_url]"
  by code_simp




text \<open>
  C10. Called with the empty string against a team list in which some record has a
  \<open>name\<close> key, the first such record carrying a \<open>team_id\<close>, \<open>get_team_id\<close> returns
  that \<open>team_id\<close> and prints nothing: the empty string is a substring of every name.
\<close>

theorem get_team_id_empty_name:
  assumes "http e teams_url = Body (PList teams)"
    and "list_all team_record teams"
    and "find has_name teams = Some (PDict kvs)"
    and "map_of kvs ''team_id'' = Some v"
  shows "get_team_id e [] w = (Inr v, w\<lparr>requests := requests w @ [teams_url]\<rparr>)"
proof -
  have "team_loop [] teams = Inr (Some v)"
    using assms(2-4) by (simp add: team_loop_find find_has_name)
  moreover have "teams \<noteq> []" using assms(3) by auto
  ultimately show ?thesis using assms(1) by (simp add: get_team_id_list)
qed

theorem get_team_id_empty_name_witness:
  "http (surroundings [] (PList og_teams) (PList some_matches) False) teams_url
       = Body (PList og_teams)
   \<and> list_all team_record og_teams
   \<and> find has_name og_teams = Some (PDict og_items)
   \<and> map_of og_items ''team_id'' = Some (PInt 2)
   \<and> get_team_id (surroundings [] (PList og_teams) (PList some_matches) False) [] fresh
       = (Inr (PInt 2), fresh\<lparr>requests := requests fresh @ [teams_url]\<rparr>)"
proof -
  have h1: "http (surroundings [] (PList og_teams) (PList some_matches) False) teams_url
              = Body (PList og_teams)"
    by (simp add: surroundings_def service_def)
  have h2: "list_all team_record og_teams"
    by (simp add: og_teams_def og_items_def ldl_items_def)
  have h3: "find has_name og_teams = Some (PDict og_items)"
    by (simp add: og_teams_def og_items_def)
  have h4: "map_of og_items ''team_id'' = Some (PInt 2)"
    by (simp add: og_items_def)
  show ?thesis
    using h1 h2 h3 h4 get_team_id_empty_name [OF h1 h2 h3 h4, of fresh] by simp
qed

text \<open>
  A non-empty team list in which no record has a \<open>name\<close> key: the not-found message is
  printed and \<open>None\<close> is returned.
\<close>

theorem get_team_id_empty_name_counterexample:
  "fst (get_team_id (surroundings [] (PList [PDict [(''team_id'', PInt 5)]]) (PList some_matches) False)
          [] fresh) = Inr PNone
   \<and> out (snd (get_team_id
                 (surroundings [] (PList [PDict [(''team_id'', PInt 5)]]) (PList some_matches) False)
                 [] fresh)) = [TeamNotFound []]"
  by (simp add: get_team_id_def requests_get_def surroundings_def service_def say_def fresh_def)

end
